theory Spec2Isabelle
  imports Complex_Main
begin

section \<open>The command line of pyqsp (src/pyqsp/main.py)\<close>

text \<open>
  \<^verbatim>\<open>CommandLine\<close> is the only function of the repository under src/. It parses its
  arguments, dispatches on \<^verbatim>\<open>args.cmd\<close> and calls into the modules
  \<^verbatim>\<open>angle_sequence\<close>, \<^verbatim>\<open>response\<close>, \<^verbatim>\<open>ham_sim\<close>, \<^verbatim>\<open>pyqsp.poly\<close> and
  \<^verbatim>\<open>pyqsp.phases\<close>, none of which is under src/. Those callees are parameters of the
  model (the record \<open>env\<close>); every call is logged with its arguments, so that a
  property of what \<^verbatim>\<open>CommandLine\<close> passes on is a property of the log.

  Python floats are only handed through by \<^verbatim>\<open>CommandLine\<close>, never computed with
  (but for the literal \<^verbatim>\<open>1 - 1.0e-4\<close>), so they are a type parameter \<open>'f\<close>. A phase
  sequence is whatever object the callee returns: a type parameter \<open>'p\<close>, wrapped in
  \<open>option\<close> where Python's \<^verbatim>\<open>None\<close> may stand in its place.
\<close>

subsection \<open>Exceptions and the ways a call can end\<close>

datatype exn =
    NameError
  | ValueError
  | TypeError
  | ArgumentError
  | ConvergenceError
  | ApproximationError
  | OtherError string

datatype 'p outcome =
    Return "'p option"
  | SysExit int
  | Raise exn

text \<open>
  Control flow inside the body: \<open>Stop\<close> leaves the function at once (a \<^verbatim>\<open>return\<close>,
  \<^verbatim>\<open>sys.exit\<close> or an exception); \<open>Continue phiset\<close> reaches line 149 with the local
  variable \<^verbatim>\<open>phiset\<close> holding the given value.
\<close>

datatype 'p flow =
    Stop "'p outcome"
  | Continue "'p option"

subsection \<open>The parsed arguments\<close>

text \<open>
  \<^verbatim>\<open>--poly\<close> is parsed by \<^verbatim>\<open>float_list\<close> into a list of floats, and is \<^verbatim>\<open>None\<close>
  when the option is absent. A caller that passes \<^verbatim>\<open>args\<close> itself may hand over a
  string, which line 86 converts.
\<close>

datatype 'f poly_arg =
    PolyNone
  | PolyList "'f list"
  | PolyStr string

record 'f args =
  cmd :: string
  verbose :: "int option"
  output_filename :: string
  model :: string
  plot :: bool
  hide_plot :: bool
  return_angles :: bool
  poly :: "'f poly_arg"
  tau :: 'f
  kappa :: 'f
  degree :: int
  epsilon :: 'f
  seqname :: "string option"
  seqargs :: "'f list option"
  align_first_point_phase :: bool
  plot_magnitude :: bool
  plot_positive_only :: bool
  plot_npts :: int
  niter :: int

subsection \<open>The callees and the log of calls\<close>

text \<open>The keyword arguments of \<^verbatim>\<open>response.PlotQSPResponse\<close>, as one request.\<close>

record ('f, 'p) plot_request =
  pl_phiset :: "'p option"
  pl_pcoefs :: "'f list option"
  pl_model :: string
  pl_align_first_point_phase :: bool
  pl_plot_magnitude :: bool
  pl_plot_positive_only :: bool
  pl_npts :: int
  pl_show :: bool

text \<open>
  An entry of the registry \<^verbatim>\<open>phase_generators\<close>, a class of \<^verbatim>\<open>pyqsp.phases\<close>: what
  instantiating it without arguments raises, if anything (line 131), what \<^verbatim>\<open>pg.help()\<close>
  answers (line 133), and \<^verbatim>\<open>pg.generate\<close> (line 135). Each of the three may raise.
\<close>

record ('f, 'p) phase_generator =
  pg_init :: "exn option"
  pg_help :: "exn + string"
  pg_generate :: "'f list \<Rightarrow> exn + 'p option"

text \<open>
  The callees, each answering a value or an exception. \<open>version\<close> is what
  \<^verbatim>\<open>pkg_resources.require("pyqsp")[0].version\<close> yields (line 26, taken to succeed);
  \<open>float_of_string\<close> is Python's \<^verbatim>\<open>float\<close> on a string (\<open>None\<close>: \<^verbatim>\<open>ValueError\<close>),
  \<open>float_lit\<close> the value of a numeric literal, \<open>float_sub\<close> float subtraction. The
  keyword arguments \<^verbatim>\<open>model=\<close> and \<^verbatim>\<open>max_nretries=\<close> of the solver are \<open>None\<close> when the
  call does not pass them.
\<close>

record ('f, 'p) env =
  version :: string
  QuantumSignalProcessingPhases ::
    "'f list \<Rightarrow> string option \<Rightarrow> int option \<Rightarrow> exn + 'p option"
  PlotQSPResponse :: "('f, 'p) plot_request \<Rightarrow> exn option"
  ham_sim :: "'f \<Rightarrow> 'f \<Rightarrow> 'f \<Rightarrow> exn + ('p option \<times> 'f)"
  PolyOneOverX :: "'f \<Rightarrow> 'f \<Rightarrow> bool \<Rightarrow> bool \<Rightarrow> exn + 'f list"
  PolyErf :: "int \<Rightarrow> 'f \<Rightarrow> exn + 'f list"
  phase_generators :: "(string \<times> ('f, 'p) phase_generator) list"
  float_of_string :: "string \<Rightarrow> 'f option"
  float_lit :: "string \<Rightarrow> 'f"
  float_sub :: "'f \<Rightarrow> 'f \<Rightarrow> 'f"

text \<open>A printed line is an f-string: literal text and interpolated values.\<close>

datatype ('f, 'p) piece =
    Text string
  | Coefs "'f list"
  | Phis "'p option"
  | NameVal string

datatype ('f, 'p) event =
    Print "('f, 'p) piece list"
  | CallQSPPhases "'f list" "string option" "int option"
  | CallPlot "('f, 'p) plot_request"
  | CallHamSim 'f 'f 'f
  | CallPolyOneOverX 'f 'f bool bool
  | CallPolyErf int 'f
  | CallGenerate string "'f list"

type_synonym ('f, 'p) trace = "('f, 'p) event list"

subsection \<open>Small pieces of Python\<close>

text \<open>Truthiness of \<^verbatim>\<open>args.poly\<close>, \<^verbatim>\<open>args.seqname\<close> and \<^verbatim>\<open>args.seqargs\<close>.\<close>

fun poly_truthy :: "'f poly_arg \<Rightarrow> bool" where
  "poly_truthy PolyNone = False"
| "poly_truthy (PolyList xs) = (xs \<noteq> [])"
| "poly_truthy (PolyStr s) = (s \<noteq> [])"

fun opt_truthy :: "'a list option \<Rightarrow> bool" where
  "opt_truthy None = False"
| "opt_truthy (Some xs) = (xs \<noteq> [])"

text \<open>\<^verbatim>\<open>value.split(",")\<close>: at least one field, empty fields kept.\<close>

fun split_comma :: "string \<Rightarrow> string list" where
  "split_comma [] = [[]]"
| "split_comma (c # cs) =
     (if c = CHR '','' then [] # split_comma cs
      else (case split_comma cs of
              [] \<Rightarrow> [[c]]
            | w # ws \<Rightarrow> (c # w) # ws))"

text \<open>\<^verbatim>\<open>",".join(keys)\<close>.\<close>

fun join_comma :: "string list \<Rightarrow> string" where
  "join_comma [] = []"
| "join_comma [k] = k"
| "join_comma (k # ks) = k @ '','' @ join_comma ks"

text \<open>
  \<^verbatim>\<open>list(map(float, coefs.split(",")))\<close> of line 87, applied only to a string; a field
  that \<^verbatim>\<open>float\<close> rejects raises \<^verbatim>\<open>ValueError\<close> (the result \<open>None\<close>).
\<close>

fun coefs_of :: "('f, 'p) env \<Rightarrow> 'f poly_arg \<Rightarrow> 'f list option" where
  "coefs_of e PolyNone = Some []"
| "coefs_of e (PolyList xs) = Some xs"
| "coefs_of e (PolyStr s) = those (map (float_of_string e) (split_comma s))"

text \<open>
  The names bound where line 146 is evaluated: the locals of \<^verbatim>\<open>CommandLine\<close> and the
  globals of the module. No builtin is called \<^verbatim>\<open>cmd\<close>.
\<close>

definition local_names :: "string list" where
  "local_names = [''args'', ''arglist'', ''pkg_resources'', ''version'', ''help_text'',
     ''parser'', ''float_list'', ''phiset'', ''coefs'', ''telapsed'', ''pcoefs'', ''pg'']"

definition global_names :: "string list" where
  "global_names = [''os'', ''sys'', ''pyqsp'', ''argparse'', ''ham_sim'', ''response'',
     ''angle_sequence'', ''phase_generators'', ''VAction'', ''CommandLine'']"

definition name_bound :: "string \<Rightarrow> bool" where
  "name_bound n = (n \<in> set (local_names @ global_names))"

definition unlines :: "string list \<Rightarrow> string" where
  "unlines ls = concat (map (\<lambda>l. l @ [CHR 0x0A]) ls)"

definition help_text :: "string \<Rightarrow> string" where
  "help_text v = unlines [
     ''usage: pyqsp [options] cmd'',
     '''',
     ''Version: '' @ v,
     ''Commands:'',
     '''',
     ''    poly2angles - compute QSP phase angles for the specified polynomial (use --poly)'',
     ''    hamsim      - compute QSP phase angles for Hamiltonian simulation using the Jacobi-Anger expansion of exp(-i tau sin(2 theta))'',
     ''    invert      - compute QSP phase angles for matrix inversion, i.e. a polynomial approximation to 1/a, for given kappa and epsilon parameter values'',
     ''    poly_sign   - compute QSP phase angles for a polynomial approximation to the sign function, using erf(kappa*x)'',
     ''    angles      - generate QSP phase angles for the specified --seqname and --seqargs'',
     '''',
     ''Examples:'',
     '''',
     ''    pyqsp --poly=-1,0,2 poly2angles'',
     ''    pyqsp --poly=-1,0,2 --plot --align-first-point-phase poly2angles'',
     ''    pyqsp --model=Wz --poly=0,0,0,1 --plot  poly2angles'',
     ''    pyqsp --plot --tau 10 hamsim'',
     ''    pyqsp --plot invert'',
     ''    pyqsp --plot-npts=4000 --plot-positive-only --plot-magnitude --plot --seqargs=1000,1.0e-20 --seqname fpsearch angles'',
     ''    pyqsp --plot-npts=100 --plot-magnitude --plot --seqargs=23 --seqname erf_step angles'',
     ''    pyqsp --plot-npts=100 --plot-positive-only --plot --seqargs=23 --seqname erf_step angles'',
     '''']"

subsection \<open>Plotting\<close>

text \<open>
  The \<^verbatim>\<open>if args.plot:\<close> block that ends every branch. The plot options come from
  \<^verbatim>\<open>args\<close>; the phase sequence, the polynomial to overlay and the model tag are what
  the branch passes.
\<close>

definition plot_request_of ::
  "'f args \<Rightarrow> 'p option \<Rightarrow> 'f list option \<Rightarrow> string \<Rightarrow> ('f, 'p) plot_request" where
  "plot_request_of a phiset pcoefs m =
     \<lparr> pl_phiset = phiset,
       pl_pcoefs = pcoefs,
       pl_model = m,
       pl_align_first_point_phase = align_first_point_phase a,
       pl_plot_magnitude = plot_magnitude a,
       pl_plot_positive_only = plot_positive_only a,
       pl_npts = plot_npts a,
       pl_show = (\<not> hide_plot a) \<rparr>"

definition maybe_plot ::
  "('f, 'p) env \<Rightarrow> 'f args \<Rightarrow> 'p option \<Rightarrow> 'f list option \<Rightarrow> string
     \<Rightarrow> ('f, 'p) trace \<times> 'p flow" where
  "maybe_plot e a phiset pcoefs m =
     (if plot a then
        (let rq = plot_request_of a phiset pcoefs m in
         case PlotQSPResponse e rq of
           Some ex \<Rightarrow> ([CallPlot rq], Stop (Raise ex))
         | None \<Rightarrow> ([CallPlot rq], Continue phiset))
      else ([], Continue phiset))"

subsection \<open>The branches of the dispatch\<close>

text \<open>Lines 81 to 95.\<close>

definition poly2angles_branch ::
  "('f, 'p) env \<Rightarrow> 'f args \<Rightarrow> ('f, 'p) trace \<times> 'p flow" where
  "poly2angles_branch e a =
     (if \<not> poly_truthy (poly a) then
        ([Print [Text ''[pyqsp.main] must specify polynomial coeffients using --poly, e.g. --poly -1,0,2'']],
         Stop (SysExit 0))
      else
        (case coefs_of e (poly a) of
           None \<Rightarrow> ([], Stop (Raise ValueError))
         | Some coefs \<Rightarrow>
             (let tr = [Print [Text ''[pyqsp] polynomial coefficients='', Coefs coefs],
                        CallQSPPhases coefs (Some (model a)) None] in
              case QuantumSignalProcessingPhases e coefs (Some (model a)) None of
                Inl ex \<Rightarrow> (tr, Stop (Raise ex))
              | Inr phiset \<Rightarrow>
                  (case maybe_plot e a phiset (Some coefs) (model a) of
                     (tr', fl) \<Rightarrow> (tr @ tr', fl)))))"

text \<open>Lines 97 to 104.\<close>

definition hamsim_branch ::
  "('f, 'p) env \<Rightarrow> 'f args \<Rightarrow> ('f, 'p) trace \<times> 'p flow" where
  "hamsim_branch e a =
     (let lo = float_lit e ''1.0e-4'';
          hi = float_sub e (float_lit e ''1'') (float_lit e ''1.0e-4'');
          tr = [CallHamSim (tau a) lo hi] in
      case ham_sim e (tau a) lo hi of
        Inl ex \<Rightarrow> (tr, Stop (Raise ex))
      | Inr (phiset, telapsed) \<Rightarrow>
          (case maybe_plot e a phiset None ''Wz'' of
             (tr', fl) \<Rightarrow> (tr @ tr', fl)))"

text \<open>Lines 106 to 114.\<close>

definition invert_branch ::
  "('f, 'p) env \<Rightarrow> 'f args \<Rightarrow> ('f, 'p) trace \<times> 'p flow" where
  "invert_branch e a =
     (let tr0 = [CallPolyOneOverX (kappa a) (epsilon a) True True] in
      case PolyOneOverX e (kappa a) (epsilon a) True True of
        Inl ex \<Rightarrow> (tr0, Stop (Raise ex))
      | Inr pcoefs \<Rightarrow>
          (let tr = tr0 @ [CallQSPPhases pcoefs None (Some (niter a))] in
           case QuantumSignalProcessingPhases e pcoefs None (Some (niter a)) of
             Inl ex \<Rightarrow> (tr, Stop (Raise ex))
           | Inr phiset \<Rightarrow>
               (case maybe_plot e a phiset (Some pcoefs) ''Wx'' of
                  (tr', fl) \<Rightarrow> (tr @ tr', fl))))"

text \<open>Lines 116 to 125.\<close>

definition poly_erf_branch ::
  "('f, 'p) env \<Rightarrow> 'f args \<Rightarrow> ('f, 'p) trace \<times> 'p flow" where
  "poly_erf_branch e a =
     (let tr0 = [CallPolyErf (degree a) (kappa a)] in
      case PolyErf e (degree a) (kappa a) of
        Inl ex \<Rightarrow> (tr0, Stop (Raise ex))
      | Inr pcoefs \<Rightarrow>
          (let tr = tr0 @ [Print [Text ''[pyqsp] polynomial coefs = '', Coefs pcoefs],
                           CallQSPPhases pcoefs None (Some (niter a))] in
           case QuantumSignalProcessingPhases e pcoefs None (Some (niter a)) of
             Inl ex \<Rightarrow> (tr, Stop (Raise ex))
           | Inr phiset \<Rightarrow>
               (case maybe_plot e a phiset (Some pcoefs) ''Wx'' of
                  (tr', fl) \<Rightarrow> (tr @ tr', fl))))"

text \<open>Lines 127 to 142.\<close>

definition known_generators_line :: "('f, 'p) env \<Rightarrow> ('f, 'p) event" where
  "known_generators_line e =
     Print [Text (''Known phase generators: '' @ join_comma (map fst (phase_generators e)))]"

text \<open>
  The test of line 128, \<^verbatim>\<open>not args.seqname or not args.seqname in phase_generators\<close>,
  and the lookup of line 131: \<open>None\<close> when the name is absent, empty or not a key.
\<close>

definition lookup_generator ::
  "('f, 'p) env \<Rightarrow> string option \<Rightarrow> (string \<times> ('f, 'p) phase_generator) option" where
  "lookup_generator e sn =
     (case sn of
        None \<Rightarrow> None
      | Some nm \<Rightarrow>
          (if nm = [] then None
           else map_option (Pair nm) (map_of (phase_generators e) nm)))"

definition angles_branch ::
  "('f, 'p) env \<Rightarrow> 'f args \<Rightarrow> ('f, 'p) trace \<times> 'p flow" where
  "angles_branch e a =
     (case lookup_generator e (seqname a) of
        None \<Rightarrow> ([known_generators_line e], Stop (Return None))
      | Some (nm, pg) \<Rightarrow>
          (case pg_init pg of
             Some ex \<Rightarrow> ([], Stop (Raise ex))
           | None \<Rightarrow>
               (if \<not> opt_truthy (seqargs a) then
                  (case pg_help pg of
                     Inl ex \<Rightarrow> ([], Stop (Raise ex))
                   | Inr h \<Rightarrow> ([Print [Text h]], Stop (Return None)))
                else
                  (let xs = (case seqargs a of Some ys \<Rightarrow> ys | None \<Rightarrow> []);
                       tr0 = [CallGenerate nm xs] in
                   case pg_generate pg xs of
                     Inl ex \<Rightarrow> (tr0, Stop (Raise ex))
                   | Inr phiset \<Rightarrow>
                       (let tr = tr0 @ [Print [Text ''[pysqp] phiset='', Phis phiset]] in
                        case maybe_plot e a phiset None ''Wx'' of
                          (tr', fl) \<Rightarrow> (tr @ tr', fl))))))"

text \<open>
  Lines 145 to 147. The f-string of line 146 reads the name \<^verbatim>\<open>cmd\<close> before anything
  is printed; an unbound name raises \<^verbatim>\<open>NameError\<close>.
\<close>

definition unknown_branch ::
  "('f, 'p) env \<Rightarrow> 'f args \<Rightarrow> ('f, 'p) trace \<times> 'p flow" where
  "unknown_branch e a =
     (if name_bound ''cmd'' then
        ([Print [Text ''[pyqsp.main] Unknown command '', NameVal ''cmd''],
          Print [Text (help_text (version e))]],
         Continue None)
      else ([], Stop (Raise NameError)))"

subsection \<open>The function\<close>

definition dispatch ::
  "('f, 'p) env \<Rightarrow> 'f args \<Rightarrow> ('f, 'p) trace \<times> 'p flow" where
  "dispatch e a =
     (if cmd a = ''poly2angles'' then poly2angles_branch e a
      else if cmd a = ''hamsim'' then hamsim_branch e a
      else if cmd a = ''invert'' then invert_branch e a
      else if cmd a = ''poly_erf'' then poly_erf_branch e a
      else if cmd a = ''angles'' then angles_branch e a
      else unknown_branch e a)"

text \<open>
  \<^verbatim>\<open>CommandLine\<close>, from line 79 on, for already parsed \<^verbatim>\<open>args\<close>: the log of what it
  printed and called, and how it ended. Lines 149 and 150 return \<^verbatim>\<open>phiset\<close> when it is
  not \<^verbatim>\<open>None\<close> and \<^verbatim>\<open>--return-angles\<close> is set; falling off the end returns \<^verbatim>\<open>None\<close>.
\<close>

definition CommandLine ::
  "('f, 'p) env \<Rightarrow> 'f args \<Rightarrow> ('f, 'p) trace \<times> 'p outcome" where
  "CommandLine e a =
     (case dispatch e a of
        (tr, Stop out) \<Rightarrow> (tr, out)
      | (tr, Continue phiset) \<Rightarrow>
          (if phiset \<noteq> None \<and> return_angles a then (tr, Return phiset)
           else (tr, Return None)))"

subsection \<open>The phase sequence a command produces\<close>


subsection \<open>Reading the log\<close>

text \<open>
  What the angle solver was given as \<^verbatim>\<open>model=\<close> and as \<^verbatim>\<open>max_nretries=\<close> (\<open>None\<close>: the
  keyword was not passed), and the model tag of each plot request, in call order.
\<close>

fun solver_models :: "('f, 'p) trace \<Rightarrow> string option list" where
  "solver_models [] = []"
| "solver_models (CallQSPPhases c m r # tr) = m # solver_models tr"
| "solver_models (ev # tr) = solver_models tr"

fun solver_retries :: "('f, 'p) trace \<Rightarrow> int option list" where
  "solver_retries [] = []"
| "solver_retries (CallQSPPhases c m r # tr) = r # solver_retries tr"
| "solver_retries (ev # tr) = solver_retries tr"

fun plot_models :: "('f, 'p) trace \<Rightarrow> string list" where
  "plot_models [] = []"
| "plot_models (CallPlot rq # tr) = pl_model rq # plot_models tr"
| "plot_models (ev # tr) = plot_models tr"

subsection \<open>The defaults of the parser\<close>

text \<open>
  The namespace \<^verbatim>\<open>parse_args\<close> yields for a bare command: the \<^verbatim>\<open>default=\<close> of each
  \<^verbatim>\<open>add_argument\<close> (lines 56 to 74), \<^verbatim>\<open>False\<close> for a \<^verbatim>\<open>store_true\<close> flag, \<^verbatim>\<open>None\<close>
  where no default is given. Floats stand as reals here.
\<close>

definition default_args :: "string \<Rightarrow> real args" where
  "default_args c =
     \<lparr> cmd = c,
       verbose = None,
       output_filename = [],
       model = ''Wx'',
       plot = False,
       hide_plot = False,
       return_angles = False,
       poly = PolyNone,
       tau = 100,
       kappa = 3,
       degree = 3,
       epsilon = 3 / 10,
       seqname = None,
       seqargs = None,
       align_first_point_phase = False,
       plot_magnitude = False,
       plot_positive_only = False,
       plot_npts = 100,
       niter = 2 \<rparr>"

section \<open>The named sequence generators (pyqsp.phases)\<close>

text \<open>
  Modelled from the spec: the generator classes of \<^verbatim>\<open>pyqsp.phases\<close> and their registry
  \<^verbatim>\<open>phase_generators\<close> are not under src/. Section 4.4 of the spec gives a generator a
  help text naming its required scalar arguments and an operation
  \<^verbatim>\<open>generate\<close> that "must validate argument arity and fail with ArgumentError
  on mismatch"; section 7 adds "reported immediately, no partial result". The closed
  form itself (\<open>gs_formula\<close>) is not given by the spec and stays a parameter. The spec
  names no failure of instantiating a generator or of its help, a description: both
  succeed.
\<close>

record ('f, 'p) generator_spec =
  gs_arity :: nat
  gs_help :: string
  gs_formula :: "'f list \<Rightarrow> 'p"

definition spec_generate :: "('f, 'p) generator_spec \<Rightarrow> 'f list \<Rightarrow> exn + 'p option" where
  "spec_generate g xs =
     (if length xs \<noteq> gs_arity g then Inl ArgumentError
      else Inr (Some (gs_formula g xs)))"

definition spec_generator :: "('f, 'p) generator_spec \<Rightarrow> ('f, 'p) phase_generator" where
  "spec_generator g =
     \<lparr> pg_init = None, pg_help = Inr (gs_help g), pg_generate = spec_generate g \<rparr>"

text \<open>
  Modelled from the spec: the two constructions section 4.4 names, a fixed-point search
  sequence with the arguments (length, delta, gamma) and an erf step sequence with a
  single scale.
\<close>

definition spec_phase_generators ::
  "('f list \<Rightarrow> 'p) \<Rightarrow> ('f list \<Rightarrow> 'p) \<Rightarrow> (string \<times> ('f, 'p) phase_generator) list" where
  "spec_phase_generators fp es =
     [(''fpsearch'',
         spec_generator \<lparr> gs_arity = 3, gs_help = ''length,delta,gamma'', gs_formula = fp \<rparr>),
      (''erf_step'',
         spec_generator \<lparr> gs_arity = 1, gs_help = ''kappa'', gs_formula = es \<rparr>)]"

section \<open>The angle solver (pyqsp.angle_sequence)\<close>

text \<open>
  Modelled from the spec: \<^verbatim>\<open>angle_sequence.QuantumSignalProcessingPhases\<close> is not under
  src/. Section 4.2 of the spec describes one attempt as degree-down: each stage fixes one
  angle from the remaining polynomial (an inverse trigonometric solve whose argument must
  lie in [-1,1], else the attempt is abandoned), unwinds one layer to a residual
  polynomial of degree one less, and recurses until degree 0. An attempt whose residual
  error exceeds the tolerance is retried from a perturbed start, at most
  \<^verbatim>\<open>max_retries\<close> times; then the solver fails with \<^verbatim>\<open>ConvergenceError\<close>, carrying the
  last residual and the attempt count. A polynomial that violates its parity or bound is
  rejected before solving (section 3). The spec does not give the recurrence (section 9),
  so the numerical steps are parameters; the skeleton is the spec's.
\<close>

datatype model_tag = Wx | Wz

datatype 'r solve_error =
    PolynomialRejected
  | ConvergenceErr "'r option" nat

record ('c, 'a, 'r) solver_ops =
  so_accepts :: "'c list \<Rightarrow> bool"
  so_stage_angle :: "model_tag \<Rightarrow> 'c list \<Rightarrow> 'a option"
  so_unwind :: "model_tag \<Rightarrow> 'a \<Rightarrow> 'c list \<Rightarrow> 'c list"
  so_residual :: "model_tag \<Rightarrow> 'c list \<Rightarrow> 'a list \<Rightarrow> 'r"
  so_within_tolerance :: "'r \<Rightarrow> bool"
  so_perturb :: "nat \<Rightarrow> 'c list \<Rightarrow> 'c list"

text \<open>Coefficients are indexed 0..d, with no padding: the degree is one less than their number.\<close>

definition poly_degree :: "'c list \<Rightarrow> nat" where
  "poly_degree p = length p - 1"

text \<open>One attempt; \<open>k\<close> is the degree of the remaining polynomial.\<close>

fun degree_down ::
  "('c, 'a, 'r) solver_ops \<Rightarrow> model_tag \<Rightarrow> nat \<Rightarrow> 'c list \<Rightarrow> 'a list option" where
  "degree_down ops m 0 p =
     (case so_stage_angle ops m p of
        None \<Rightarrow> None
      | Some phi \<Rightarrow> Some [phi])"
| "degree_down ops m (Suc k) p =
     (case so_stage_angle ops m p of
        None \<Rightarrow> None
      | Some phi \<Rightarrow>
          (case degree_down ops m k (so_unwind ops m phi p) of
             None \<Rightarrow> None
           | Some phis \<Rightarrow> Some (phi # phis)))"

text \<open>
  The bounded retry loop: \<open>left\<close> attempts remain, \<open>n\<close> have been made, \<open>res\<close> is the
  residual of the latest attempt that ran to the end.
\<close>

fun attempts ::
  "('c, 'a, 'r) solver_ops \<Rightarrow> model_tag \<Rightarrow> 'c list \<Rightarrow> nat \<Rightarrow> nat \<Rightarrow> 'r option
     \<Rightarrow> 'r solve_error + 'a list" where
  "attempts ops m p 0 n res = Inl (ConvergenceErr res n)"
| "attempts ops m p (Suc left) n res =
     (case degree_down ops m (poly_degree p) (so_perturb ops n p) of
        None \<Rightarrow> attempts ops m p left (Suc n) res
      | Some phis \<Rightarrow>
          (let r = so_residual ops m p phis in
           if so_within_tolerance ops r then Inr phis
           else attempts ops m p left (Suc n) (Some r)))"

definition solve ::
  "('c, 'a, 'r) solver_ops \<Rightarrow> 'c list \<Rightarrow> model_tag \<Rightarrow> nat \<Rightarrow> 'r solve_error + 'a list" where
  "solve ops p m max_retries =
     (if p = [] \<or> \<not> so_accepts ops p then Inl PolynomialRejected
      else attempts ops m p (Suc max_retries) 0 None)"

section \<open>Test doubles\<close>

text \<open>
  Concrete callees, for running \<^verbatim>\<open>CommandLine\<close> on concrete arguments: a solver that
  answers one zero angle per coefficient, builders that answer a fixed polynomial, a
  plot that succeeds, and the registry of the two generators above.
\<close>

definition demo_env :: "(real, real list) env" where
  "demo_env =
     \<lparr> version = ''1.0'',
       QuantumSignalProcessingPhases = (\<lambda>coefs m r. Inr (Some (map (\<lambda>c. 0) coefs))),
       PlotQSPResponse = (\<lambda>rq. None),
       ham_sim = (\<lambda>t lo hi. Inr (Some [0, 0], 0)),
       PolyOneOverX = (\<lambda>k eps rc eb. Inr [0, 1 / 2]),
       PolyErf = (\<lambda>d k. Inr [0, 1 / 2]),
       phase_generators = spec_phase_generators (\<lambda>xs. xs) (\<lambda>xs. xs),
       float_of_string = (\<lambda>s. None),
       float_lit = (\<lambda>s. if s = ''1'' then 1 else 1 / 10000),
       float_sub = (\<lambda>x y. x - y) \<rparr>"

text \<open>Steps over integers for the solver skeleton: the angle is the leading coefficient.\<close>

definition demo_ops :: "(int, int, nat) solver_ops" where
  "demo_ops =
     \<lparr> so_accepts = (\<lambda>p. True),
       so_stage_angle = (\<lambda>m p. case p of [] \<Rightarrow> None | c # cs \<Rightarrow> Some c),
       so_unwind = (\<lambda>m phi p. tl p),
       so_residual = (\<lambda>m p phis. 0),
       so_within_tolerance = (\<lambda>r. r = 0),
       so_perturb = (\<lambda>n p. p) \<rparr>"

section \<open>Properties of the command line\<close>

lemma name_bound_cmd: "\<not> name_bound ''cmd''"
  by (simp add: name_bound_def local_names_def global_names_def)

text \<open>
  Claim C8. Whenever \<^verbatim>\<open>args.cmd\<close> is none of \<^verbatim>\<open>poly2angles\<close>, \<^verbatim>\<open>hamsim\<close>, \<^verbatim>\<open>invert\<close>,
  \<^verbatim>\<open>poly_erf\<close> and \<^verbatim>\<open>angles\<close>, the fallback branch raises \<^verbatim>\<open>NameError\<close>, since the
  name \<^verbatim>\<open>cmd\<close> it reads is bound nowhere; nothing has been printed by then, the help
  text included. So it is for \<^verbatim>\<open>poly_sign\<close>, a command the help text lists.
\<close>

theorem unknown_cmd_raises_NameError:
  assumes "cmd a \<notin> {''poly2angles'', ''hamsim'', ''invert'', ''poly_erf'', ''angles''}"
  shows "CommandLine e a = ([], Raise NameError)"
  using assms by (simp add: CommandLine_def dispatch_def unknown_branch_def name_bound_cmd)

theorem unknown_cmd_raises_NameError_witness:
  "cmd (default_args ''poly_sign'')
     \<notin> {''poly2angles'', ''hamsim'', ''invert'', ''poly_erf'', ''angles''}
   \<and> CommandLine demo_env (default_args ''poly_sign'') = ([], Raise NameError)"
  using unknown_cmd_raises_NameError [of "default_args ''poly_sign''" demo_env]
  by (simp add: default_args_def)

text \<open>
  Claim C9. The command \<^verbatim>\<open>poly2angles\<close> without polynomial coefficients (\<^verbatim>\<open>args.poly\<close>
  is \<^verbatim>\<open>None\<close>, or empty) prints one message and ends the process with
  \<^verbatim>\<open>sys.exit(0)\<close>: exit status 0, no value returned to the caller, no callee reached.
\<close>

theorem poly2angles_without_poly_exits:
  assumes "cmd a = ''poly2angles''" and "\<not> poly_truthy (poly a)"
  shows "CommandLine e a =
    ([Print [Text ''[pyqsp.main] must specify polynomial coeffients using --poly, e.g. --poly -1,0,2'']],
     SysExit 0)"
  using assms by (simp add: CommandLine_def dispatch_def poly2angles_branch_def)

theorem poly2angles_without_poly_exits_witness:
  "cmd (default_args ''poly2angles'') = ''poly2angles''
   \<and> \<not> poly_truthy (poly (default_args ''poly2angles''))
   \<and> CommandLine demo_env (default_args ''poly2angles'') =
    ([Print [Text ''[pyqsp.main] must specify polynomial coeffients using --poly, e.g. --poly -1,0,2'']],
     SysExit 0)"
  using poly2angles_without_poly_exits [of "default_args ''poly2angles''" demo_env]
  by (simp add: default_args_def)

text \<open>
  Claim C4. The command \<^verbatim>\<open>angles\<close> with a sequence name that is absent, empty or not a
  key of the registry prints the line \<^verbatim>\<open>Known phase generators:\<close> followed by the keys of
  the registry, joined by commas, and returns \<^verbatim>\<open>None\<close>. With a known name but no
  sequence arguments (\<^verbatim>\<open>args.seqargs\<close> is \<^verbatim>\<open>None\<close> or empty) it prints the text that the
  generator's \<^verbatim>\<open>help()\<close> answers and returns \<^verbatim>\<open>None\<close>; that the generator can be
  instantiated and that its help answers a text is what "prints the generator's help"
  takes for granted, and holds of every generator as the spec describes one. In all
  these cases the log holds the one printed line only: \<^verbatim>\<open>generate\<close> is not called, no
  phase sequence is produced, and the function returns normally, with no exception and
  no exit.
\<close>

theorem angles_unknown_or_no_args_reports:
  assumes "cmd a = ''angles''"
  shows
    "(seqname a = None \<or> seqname a = Some []
        \<or> (\<exists>nm. seqname a = Some nm \<and> nm \<notin> fst ` set (phase_generators e)) \<longrightarrow>
      CommandLine e a =
        ([Print [Text (''Known phase generators: ''
                        @ join_comma (map fst (phase_generators e)))]],
         Return None))
     \<and> (seqname a = Some nm \<and> nm \<noteq> [] \<and> map_of (phase_generators e) nm = Some pg
          \<and> \<not> opt_truthy (seqargs a) \<and> pg_init pg = None \<and> pg_help pg = Inr h \<longrightarrow>
        CommandLine e a = ([Print [Text h]], Return None))
     \<and> (seqname a = Some nm \<and> nm \<noteq> []
          \<and> map_of (phase_generators e) nm = Some (spec_generator g)
          \<and> \<not> opt_truthy (seqargs a) \<longrightarrow>
        CommandLine e a = ([Print [Text (gs_help g)]], Return None))"
proof (intro conjI impI)
  assume "seqname a = None \<or> seqname a = Some []
    \<or> (\<exists>nm. seqname a = Some nm \<and> nm \<notin> fst ` set (phase_generators e))"
  then have "lookup_generator e (seqname a) = None"
    by (auto simp: lookup_generator_def map_of_eq_None_iff)
  with assms show "CommandLine e a =
      ([Print [Text (''Known phase generators: ''
                      @ join_comma (map fst (phase_generators e)))]],
       Return None)"
    by (simp add: CommandLine_def dispatch_def angles_branch_def known_generators_line_def)
next
  assume h: "seqname a = Some nm \<and> nm \<noteq> [] \<and> map_of (phase_generators e) nm = Some pg
    \<and> \<not> opt_truthy (seqargs a) \<and> pg_init pg = None \<and> pg_help pg = Inr h"
  then have "lookup_generator e (seqname a) = Some (nm, pg)"
    by (simp add: lookup_generator_def)
  with assms h show "CommandLine e a = ([Print [Text h]], Return None)"
    by (simp add: CommandLine_def dispatch_def angles_branch_def)
next
  assume h: "seqname a = Some nm \<and> nm \<noteq> []
    \<and> map_of (phase_generators e) nm = Some (spec_generator g)
    \<and> \<not> opt_truthy (seqargs a)"
  then have "lookup_generator e (seqname a) = Some (nm, spec_generator g)"
    by (simp add: lookup_generator_def)
  with assms h show "CommandLine e a = ([Print [Text (gs_help g)]], Return None)"
    by (simp add: CommandLine_def dispatch_def angles_branch_def spec_generator_def)
qed

lemma lookup_demo_fpsearch:
  "lookup_generator demo_env (Some ''fpsearch'') =
     Some (''fpsearch'', spec_generator \<lparr> gs_arity = 3, gs_help = ''length,delta,gamma'', gs_formula = (\<lambda>xs. xs) \<rparr>)"
  by (simp add: lookup_generator_def demo_env_def spec_phase_generators_def)

lemma demo_registry:
  "map fst (phase_generators demo_env) = [''fpsearch'', ''erf_step'']"
  "map_of (phase_generators demo_env) ''fpsearch'' =
     Some (spec_generator
       \<lparr> gs_arity = 3, gs_help = ''length,delta,gamma'', gs_formula = (\<lambda>xs. xs) \<rparr>)"
  by (simp_all add: demo_env_def spec_phase_generators_def)

theorem angles_unknown_or_no_args_reports_witness:
  "CommandLine demo_env (default_args ''angles'' \<lparr> seqname := Some ''qft'', seqargs := Some [1] \<rparr>) =
     ([Print [Text ''Known phase generators: fpsearch,erf_step'']], Return None)
   \<and> CommandLine demo_env (default_args ''angles'') =
     ([Print [Text ''Known phase generators: fpsearch,erf_step'']], Return None)
   \<and> CommandLine demo_env (default_args ''angles'' \<lparr> seqname := Some ''fpsearch'' \<rparr>) =
     ([Print [Text ''length,delta,gamma'']], Return None)"
proof -
  let ?a = "default_args ''angles'' \<lparr> seqname := Some ''qft'', seqargs := Some [1] \<rparr>"
  let ?n = "default_args ''angles'' :: real args"
  let ?b = "default_args ''angles'' \<lparr> seqname := Some ''fpsearch'' \<rparr>"
  let ?g = "\<lparr> gs_arity = 3, gs_help = ''length,delta,gamma'',
              gs_formula = (\<lambda>xs :: real list. xs) \<rparr>"
  have ca: "cmd ?a = ''angles''" and cn: "cmd ?n = ''angles''" and cb: "cmd ?b = ''angles''"
    by (simp_all add: default_args_def)
  have sa: "seqname ?a = Some ''qft''" and sn: "seqname ?n = None"
    and sb: "seqname ?b = Some ''fpsearch''" and nb: "\<not> opt_truthy (seqargs ?b)"
    by (simp_all add: default_args_def)
  have qa: "''qft'' \<notin> fst ` set (phase_generators demo_env)"
    by (simp add: demo_env_def spec_phase_generators_def)
  have init: "pg_init (spec_generator ?g) = None"
    and hlp: "pg_help (spec_generator ?g) = Inr ''length,delta,gamma''"
    by (simp_all add: spec_generator_def)
  from angles_unknown_or_no_args_reports [OF ca, of demo_env] sa qa
  have "CommandLine demo_env ?a =
      ([Print [Text ''Known phase generators: fpsearch,erf_step'']], Return None)"
    by (simp add: demo_registry)
  moreover from angles_unknown_or_no_args_reports [OF cn, of demo_env] sn
  have "CommandLine demo_env ?n =
      ([Print [Text ''Known phase generators: fpsearch,erf_step'']], Return None)"
    by (simp add: demo_registry)
  moreover from angles_unknown_or_no_args_reports
      [OF cb, of demo_env "''fpsearch''" "spec_generator ?g" "''length,delta,gamma''" ?g]
    sb nb init hlp demo_registry(2)
  have "CommandLine demo_env ?b = ([Print [Text ''length,delta,gamma'']], Return None)"
    by simp
  ultimately show ?thesis by simp
qed

subsection \<open>The model tag and the retry budget\<close>

lemma solver_models_append: "solver_models (xs @ ys) = solver_models xs @ solver_models ys"
  by (induction xs rule: solver_models.induct) simp_all

lemma plot_models_append: "plot_models (xs @ ys) = plot_models xs @ plot_models ys"
  by (induction xs rule: plot_models.induct) simp_all

lemma maybe_plot_log:
  assumes "maybe_plot e a ph pc m = (tr, fl)"
  shows "solver_models tr = []" and "set (plot_models tr) \<subseteq> {m}"
  using assms
  by (auto simp: maybe_plot_def plot_request_of_def Let_def split: option.splits if_splits)

lemma fst_CommandLine: "fst (CommandLine e a) = fst (dispatch e a)"
  by (simp add: CommandLine_def split: prod.splits flow.splits)

lemma poly2angles_log:
  "set (solver_models (fst (poly2angles_branch e a))) \<subseteq> {Some (model a)}"
  "set (plot_models (fst (poly2angles_branch e a))) \<subseteq> {model a}"
  by (auto simp: poly2angles_branch_def Let_def solver_models_append plot_models_append
           split: option.splits sum.splits prod.splits dest: maybe_plot_log)

lemma invert_log:
  "set (solver_models (fst (invert_branch e a))) \<subseteq> {None}"
  "set (plot_models (fst (invert_branch e a))) \<subseteq> {''Wx''}"
  by (auto simp: invert_branch_def Let_def solver_models_append plot_models_append
           split: option.splits sum.splits prod.splits dest: maybe_plot_log)

lemma poly_erf_log:
  "set (solver_models (fst (poly_erf_branch e a))) \<subseteq> {None}"
  "set (plot_models (fst (poly_erf_branch e a))) \<subseteq> {''Wx''}"
  by (auto simp: poly_erf_branch_def Let_def solver_models_append plot_models_append
           split: option.splits sum.splits prod.splits dest: maybe_plot_log)

lemma angles_log:
  "solver_models (fst (angles_branch e a)) = []"
  "set (plot_models (fst (angles_branch e a))) \<subseteq> {''Wx''}"
  by (auto simp: angles_branch_def known_generators_line_def Let_def solver_models_append plot_models_append
           split: option.splits sum.splits prod.splits dest: maybe_plot_log)

lemma hamsim_log:
  "solver_models (fst (hamsim_branch e a)) = []"
  "set (plot_models (fst (hamsim_branch e a))) \<subseteq> {''Wz''}"
  by (auto simp: hamsim_branch_def Let_def solver_models_append plot_models_append
           split: option.splits sum.splits prod.splits dest: maybe_plot_log)

text \<open>
  Claim C2, as stated, fails: \<^verbatim>\<open>--model=Wz --plot invert\<close> calls the solver with no
  \<^verbatim>\<open>model=\<close> keyword and plots with the literal tag \<^verbatim>\<open>"Wx"\<close> (lines 108 and 110).
\<close>

theorem invert_plot_model_counterexample:
  "model (default_args ''invert'' \<lparr> model := ''Wz'', plot := True \<rparr>) = ''Wz''
   \<and> solver_models (fst (CommandLine demo_env
         (default_args ''invert'' \<lparr> model := ''Wz'', plot := True \<rparr>))) = [None]
   \<and> plot_models (fst (CommandLine demo_env
         (default_args ''invert'' \<lparr> model := ''Wz'', plot := True \<rparr>))) = [''Wx'']"
  by (simp add: default_args_def demo_env_def CommandLine_def dispatch_def
        invert_branch_def maybe_plot_def plot_request_of_def)

text \<open>
  Claim C2, amended. Only \<^verbatim>\<open>poly2angles\<close> passes \<^verbatim>\<open>args.model\<close> on: every solver call
  and every plot request of that command carries the tag chosen by \<^verbatim>\<open>--model\<close>. For
  \<^verbatim>\<open>invert\<close> and \<^verbatim>\<open>poly_erf\<close> the solver gets no \<^verbatim>\<open>model=\<close> keyword and the plot the fixed
  tag \<^verbatim>\<open>"Wx"\<close>; \<^verbatim>\<open>angles\<close> never calls the solver and plots with \<^verbatim>\<open>"Wx"\<close>; \<^verbatim>\<open>hamsim\<close>
  never calls it either and plots with \<^verbatim>\<open>"Wz"\<close>.
\<close>

theorem model_tag_passed_on:
  "(cmd a = ''poly2angles'' \<longrightarrow>
      set (solver_models (fst (CommandLine e a))) \<subseteq> {Some (model a)}
      \<and> set (plot_models (fst (CommandLine e a))) \<subseteq> {model a})
   \<and> (cmd a = ''invert'' \<or> cmd a = ''poly_erf'' \<longrightarrow>
      set (solver_models (fst (CommandLine e a))) \<subseteq> {None}
      \<and> set (plot_models (fst (CommandLine e a))) \<subseteq> {''Wx''})
   \<and> (cmd a = ''angles'' \<longrightarrow>
      solver_models (fst (CommandLine e a)) = []
      \<and> set (plot_models (fst (CommandLine e a))) \<subseteq> {''Wx''})
   \<and> (cmd a = ''hamsim'' \<longrightarrow>
      solver_models (fst (CommandLine e a)) = []
      \<and> set (plot_models (fst (CommandLine e a))) \<subseteq> {''Wz''})"
  by (simp add: fst_CommandLine dispatch_def poly2angles_log invert_log poly_erf_log
        angles_log hamsim_log)

theorem model_tag_passed_on_witness:
  "cmd (default_args ''poly2angles'' \<lparr> model := ''Wz'', poly := PolyList [0, 0, 0, 1], plot := True \<rparr>)
     = ''poly2angles''
   \<and> solver_models (fst (CommandLine demo_env
        (default_args ''poly2angles'' \<lparr> model := ''Wz'', poly := PolyList [0, 0, 0, 1], plot := True \<rparr>)))
     = [Some ''Wz'']
   \<and> plot_models (fst (CommandLine demo_env
        (default_args ''poly2angles'' \<lparr> model := ''Wz'', poly := PolyList [0, 0, 0, 1], plot := True \<rparr>)))
     = [''Wz'']
   \<and> set (plot_models (fst (CommandLine demo_env
        (default_args ''invert'' \<lparr> model := ''Wz'', plot := True \<rparr>)))) \<subseteq> {''Wx''}
   \<and> set (solver_models (fst (CommandLine demo_env
        (default_args ''poly_erf'' \<lparr> model := ''Wz'', plot := True \<rparr>)))) \<subseteq> {None}
   \<and> set (plot_models (fst (CommandLine demo_env
        (default_args ''angles'' \<lparr> model := ''Wz'', plot := True,
           seqname := Some ''erf_step'', seqargs := Some [23] \<rparr>)))) \<subseteq> {''Wx''}
   \<and> set (plot_models (fst (CommandLine demo_env
        (default_args ''hamsim'' \<lparr> model := ''Wx'', plot := True \<rparr>)))) \<subseteq> {''Wz''}"
proof -
  let ?p = "default_args ''poly2angles'' \<lparr> model := ''Wz'', poly := PolyList [0, 0, 0, 1], plot := True \<rparr>"
  let ?i = "default_args ''invert'' \<lparr> model := ''Wz'', plot := True \<rparr>"
  let ?e = "default_args ''poly_erf'' \<lparr> model := ''Wz'', plot := True \<rparr>"
  let ?g = "default_args ''angles'' \<lparr> model := ''Wz'', plot := True,
              seqname := Some ''erf_step'', seqargs := Some [23] \<rparr>"
  let ?h = "default_args ''hamsim'' \<lparr> model := ''Wx'', plot := True \<rparr>"
  have cp: "cmd ?p = ''poly2angles''" and mp: "model ?p = ''Wz''"
    and ci: "cmd ?i = ''invert''" and ce: "cmd ?e = ''poly_erf''"
    and cg: "cmd ?g = ''angles''" and ch: "cmd ?h = ''hamsim''"
    by (simp_all add: default_args_def)
  have sp: "solver_models (fst (CommandLine demo_env ?p)) = [Some ''Wz'']"
    and pp: "plot_models (fst (CommandLine demo_env ?p)) = [''Wz'']"
    by (simp_all add: default_args_def demo_env_def CommandLine_def dispatch_def
          poly2angles_branch_def maybe_plot_def plot_request_of_def)
  from model_tag_passed_on [of ?p demo_env] cp mp
  have "set (solver_models (fst (CommandLine demo_env ?p))) \<subseteq> {Some ''Wz''}"
    by simp
  moreover from model_tag_passed_on [of ?i demo_env] ci
  have "set (plot_models (fst (CommandLine demo_env ?i))) \<subseteq> {''Wx''}"
    by simp
  moreover from model_tag_passed_on [of ?e demo_env] ce
  have "set (solver_models (fst (CommandLine demo_env ?e))) \<subseteq> {None}"
    by simp
  moreover from model_tag_passed_on [of ?g demo_env] cg
  have "set (plot_models (fst (CommandLine demo_env ?g))) \<subseteq> {''Wx''}"
    by simp
  moreover from model_tag_passed_on [of ?h demo_env] ch
  have "set (plot_models (fst (CommandLine demo_env ?h))) \<subseteq> {''Wz''}"
    by simp
  ultimately show ?thesis using cp sp pp by simp
qed

text \<open>
  Claim C3 at \<^verbatim>\<open>--niter 5 --poly=-1,0,2 poly2angles\<close>: the solver call of line 89 carries
  no \<^verbatim>\<open>max_nretries=\<close> keyword, so the budget of 5 is not passed on, while the sibling
  calls of lines 108 and 119 (\<^verbatim>\<open>invert\<close>, \<^verbatim>\<open>poly_erf\<close>) pass it.
\<close>

theorem poly2angles_drops_niter:
  "niter (default_args ''poly2angles'' \<lparr> poly := PolyList [-1, 0, 2], niter := 5 \<rparr>) = 5
   \<and> solver_retries (fst (CommandLine demo_env
         (default_args ''poly2angles'' \<lparr> poly := PolyList [-1, 0, 2], niter := 5 \<rparr>))) = [None]
   \<and> solver_retries (fst (CommandLine demo_env (default_args ''invert'' \<lparr> niter := 5 \<rparr>))) = [Some 5]
   \<and> solver_retries (fst (CommandLine demo_env (default_args ''poly_erf'' \<lparr> niter := 5 \<rparr>))) = [Some 5]"
  by (simp add: default_args_def demo_env_def CommandLine_def dispatch_def poly2angles_branch_def
        invert_branch_def poly_erf_branch_def maybe_plot_def)

subsection \<open>The value returned\<close>











section \<open>Properties of the parts modelled from the spec\<close>

text \<open>
  Claim C7. A generator called with a number of arguments other than its arity fails
  with \<^verbatim>\<open>ArgumentError\<close> and yields no phase sequence; reached through the \<^verbatim>\<open>angles\<close>
  command (line 135), the error leaves \<^verbatim>\<open>CommandLine\<close> as that exception, after the one
  call and before anything is printed, plotted or returned.
\<close>

theorem generate_wrong_arity_ArgumentError:
  assumes "length xs \<noteq> gs_arity g"
  shows "pg_generate (spec_generator g) xs = Inl ArgumentError
    \<and> (cmd a = ''angles'' \<and> lookup_generator e (seqname a) = Some (nm, spec_generator g)
         \<and> seqargs a = Some xs \<and> xs \<noteq> [] \<longrightarrow>
       CommandLine e a = ([CallGenerate nm xs], Raise ArgumentError))"
  using assms
  by (auto simp: spec_generator_def spec_generate_def CommandLine_def dispatch_def angles_branch_def)

theorem generate_wrong_arity_ArgumentError_witness:
  "length [1000, 1 / 10 :: real] \<noteq> 3
   \<and> pg_generate (spec_generator
        \<lparr> gs_arity = 3, gs_help = ''length,delta,gamma'', gs_formula = (\<lambda>xs :: real list. xs) \<rparr>)
        [1000, 1 / 10] = Inl ArgumentError
   \<and> CommandLine demo_env
        (default_args ''angles'' \<lparr> seqname := Some ''fpsearch'', seqargs := Some [1000, 1 / 10] \<rparr>)
      = ([CallGenerate ''fpsearch'' [1000, 1 / 10]], Raise ArgumentError)"
proof -
  let ?g = "\<lparr> gs_arity = 3, gs_help = ''length,delta,gamma'',
              gs_formula = (\<lambda>xs :: real list. xs) \<rparr>"
  let ?xs = "[1000, 1 / 10 :: real]"
  let ?a = "default_args ''angles'' \<lparr> seqname := Some ''fpsearch'', seqargs := Some ?xs \<rparr>"
  have ar: "length ?xs \<noteq> gs_arity ?g"
    by simp
  have ca: "cmd ?a = ''angles''" and sa: "seqargs ?a = Some ?xs"
    by (simp_all add: default_args_def)
  have la: "lookup_generator demo_env (seqname ?a) = Some (''fpsearch'', spec_generator ?g)"
    by (simp add: default_args_def lookup_demo_fpsearch)
  from generate_wrong_arity_ArgumentError [OF ar, of ?a demo_env "''fpsearch''"] ca sa la
  show ?thesis by simp
qed

lemma degree_down_length:
  "degree_down ops m k p = Some phis \<Longrightarrow> length phis = Suc k"
  by (induction k arbitrary: p phis) (auto split: option.splits)

lemma attempts_length:
  "attempts ops m p left n res = Inr phis \<Longrightarrow> length phis = Suc (poly_degree p)"
  by (induction left arbitrary: n res)
     (auto simp: Let_def split: option.splits if_splits dest: degree_down_length)

text \<open>
  Claim C6. A phase sequence the solver returns for a polynomial of degree d (d + 1
  coefficients) has exactly d + 1 angles: each attempt fixes one angle per stage, from
  degree d down to degree 0.
\<close>

theorem solve_length:
  assumes "solve ops p m max_retries = Inr phis"
  shows "length phis = poly_degree p + 1"
proof -
  from assms have "attempts ops m p (Suc max_retries) 0 None = Inr phis"
    by (simp add: solve_def del: attempts.simps split: if_splits)
  then show ?thesis by (simp add: attempts_length del: attempts.simps)
qed

theorem solve_length_witness:
  "solve demo_ops [-1, 0, 2] Wx 2 = Inr [-1, 0, 2]
   \<and> length [-1, 0, 2 :: int] = poly_degree [-1, 0, 2 :: int] + 1"
proof -
  have s: "solve demo_ops [-1, 0, 2] Wx 2 = Inr [-1, 0, 2]"
    by (simp add: solve_def demo_ops_def poly_degree_def eval_nat_numeral)
  from solve_length [OF s] s show ?thesis by simp
qed

end
